theory Spec2Isabelle
  imports Main
begin

section \<open>Fixed-point decimals\<close>

text \<open>
  The sources compute with \<^verbatim>\<open>Dec\<close> and \<^verbatim>\<open>Int\<close> of the package
  \<^verbatim>\<open>@keplr-wallet/unit\<close>. An \<^verbatim>\<open>Int\<close> is an integer; a \<^verbatim>\<open>Dec\<close> is an integer
  read with 18 decimal places. A \<open>dec\<close> below is that underlying integer: the decimal
  \<^verbatim>\<open>70.5\<close> is the \<open>dec\<close> \<open>70500000000000000000\<close>. Both classes refuse values beyond
  256 (316) bits; no computation below comes near that bound, and it is not modelled.
  The big-integer division of the package truncates toward zero and raises on a zero
  divisor: the functions below are only ever called with a non-zero divisor, and every
  source function that can divide by zero checks for it first and returns the error.
\<close>

type_synonym dec = int

definition decPrecision :: int where
  "decPrecision = 10 ^ 18"

definition bigDivide :: "int \<Rightarrow> int \<Rightarrow> int" where
  \<comment> \<open>\<^verbatim>\<open>bigInteger.divide\<close>: the quotient truncated toward zero.\<close>
  "bigDivide a b = sgn a * sgn b * (\<bar>a\<bar> div \<bar>b\<bar>)"

definition chopRoundAbs :: "int \<Rightarrow> int \<Rightarrow> int" where
  \<comment> \<open>\<^verbatim>\<open>chopPrecisionAndRound\<close> on a value that is not negative. First argument: the
      precision multiplier. The tie case tests \<^verbatim>\<open>quotient.divide(2).equals(0)\<close>, as the
      package does.\<close>
  "chopRoundAbs p d =
     (let fivePrecision = p div 2; quotient = d div p; remainder = d mod p in
      if remainder = 0 then quotient
      else if remainder < fivePrecision then quotient
      else if remainder > fivePrecision then quotient + 1
      else if quotient div 2 = 0 then quotient
      else quotient + 1)"

definition chopPrecisionAndRound :: "int \<Rightarrow> int \<Rightarrow> int" where
  \<comment> \<open>A negative value is rounded as its absolute value and negated again.\<close>
  "chopPrecisionAndRound p d = (if d < 0 then - chopRoundAbs p (- d) else chopRoundAbs p d)"

definition chopPrecisionAndTruncate :: "int \<Rightarrow> int \<Rightarrow> int" where
  "chopPrecisionAndTruncate p d = bigDivide d p"

definition chopPrecisionAndRoundUp :: "int \<Rightarrow> int \<Rightarrow> int" where
  "chopPrecisionAndRoundUp p d =
     (if d < 0 then - chopPrecisionAndTruncate p (- d)
      else
        let quotient = d div p; remainder = d mod p in
        if remainder = 0 then quotient else quotient + 1)"

definition ofInt :: "int \<Rightarrow> dec" where
  \<comment> \<open>\<^verbatim>\<open>new Dec(n)\<close> for an integer \<^verbatim>\<open>n\<close>.\<close>
  "ofInt n = n * decPrecision"

definition mul :: "dec \<Rightarrow> dec \<Rightarrow> dec" where
  "mul a b = chopPrecisionAndRound decPrecision (a * b)"

definition mulTruncate :: "dec \<Rightarrow> dec \<Rightarrow> dec" where
  "mulTruncate a b = chopPrecisionAndTruncate decPrecision (a * b)"

definition quo :: "dec \<Rightarrow> dec \<Rightarrow> dec" where
  "quo a b = chopPrecisionAndRound decPrecision (bigDivide (a * decPrecision * decPrecision) b)"

definition quoTruncate :: "dec \<Rightarrow> dec \<Rightarrow> dec" where
  "quoTruncate a b =
     chopPrecisionAndTruncate decPrecision (bigDivide (a * decPrecision * decPrecision) b)"

definition quoRoundUp :: "dec \<Rightarrow> dec \<Rightarrow> dec" where
  "quoRoundUp a b =
     chopPrecisionAndRoundUp decPrecision (bigDivide (a * decPrecision * decPrecision) b)"

definition decTruncate :: "dec \<Rightarrow> int" where
  "decTruncate a = chopPrecisionAndTruncate decPrecision a"

definition decRound :: "dec \<Rightarrow> int" where
  "decRound a = chopPrecisionAndRound decPrecision a"

definition roundUpDec :: "dec \<Rightarrow> dec" where
  "roundUpDec a = ofInt (chopPrecisionAndRoundUp decPrecision a)"

function powLoop :: "dec \<Rightarrow> dec \<Rightarrow> int \<Rightarrow> dec" where
  \<comment> \<open>The loop of \<^verbatim>\<open>Dec.pow\<close>:
      \<^verbatim>\<open>for (let i = n; i.gt(1); i = i.div(2)) { if (odd i) tmp = tmp.mul(base); base = base.mul(base); }\<close>
      followed by \<^verbatim>\<open>return base.mul(tmp)\<close>.\<close>
  "powLoop base tmp i =
     (if i > 1
      then powLoop (mul base base) (if i mod 2 \<noteq> 0 then mul tmp base else tmp) (i div 2)
      else mul base tmp)"
  by pat_completeness auto
termination
  by (relation "measure (\<lambda>(base, tmp, i). nat i)") auto

declare powLoop.simps [simp del]

definition decPow :: "dec \<Rightarrow> int \<Rightarrow> dec" where
  "decPow a n =
     (if n = 0 then ofInt 1
      else if n < 0 then quo (ofInt 1) (powLoop a (ofInt 1) \<bar>n\<bar>)
      else powLoop a (ofInt 1) n)"

section \<open>Errors\<close>

datatype error =
    SwapFeeNegative
  | FeeChargeNegative
  | DivideByZero
  | TooLittlePrecision
  | ExponentOutOfRange
  | TickIndexOutOfRange
  | PriceOutOfRange
  | PriceNegative
  | TickOverflowError
  | StrategyError

section \<open>Swap arithmetic (math.ts)\<close>

definition smallestDec :: dec where
  \<comment> \<open>Modelled from the spec: \<^verbatim>\<open>const.ts\<close> is not among the sources; the "smallest
      representable decimal" of an 18-place decimal is \<open>10\<^sup>-\<^sup>1\<^sup>8\<close>.\<close>
  "smallestDec = 1"

definition calcAmount0Delta :: "dec \<Rightarrow> dec \<Rightarrow> dec \<Rightarrow> bool \<Rightarrow> error + dec" where
  "calcAmount0Delta liquidity sqrtPriceA sqrtPriceB roundUp =
     (let (a, b) = (if sqrtPriceA > sqrtPriceB then (sqrtPriceB, sqrtPriceA)
                    else (sqrtPriceA, sqrtPriceB));
          diff = b - a;
          denom = mul a b
      in if denom = 0 then Inl DivideByZero
         else if roundUp then Inr (roundUpDec (quo (mul liquidity diff) denom))
         else Inr (quo (mul liquidity diff) denom))"

definition calcAmount1Delta :: "dec \<Rightarrow> dec \<Rightarrow> dec \<Rightarrow> bool \<Rightarrow> dec" where
  "calcAmount1Delta liquidity sqrtPriceA sqrtPriceB roundUp =
     (let (a, b) = (if sqrtPriceA > sqrtPriceB then (sqrtPriceB, sqrtPriceA)
                    else (sqrtPriceA, sqrtPriceB));
          diff = b - a
      in if roundUp then roundUpDec (mul liquidity diff) else mul liquidity diff)"

definition getNextSqrtPriceFromAmount0InRoundingUp :: "dec \<Rightarrow> dec \<Rightarrow> dec \<Rightarrow> error + dec" where
  "getNextSqrtPriceFromAmount0InRoundingUp sqrtPriceCurrent liquidity amountRemaining =
     (if amountRemaining = 0 then Inr sqrtPriceCurrent
      else
        let product = mul amountRemaining sqrtPriceCurrent;
            denom = liquidity + product
        in if denom = 0 then Inl DivideByZero
           else Inr (quoRoundUp (mul liquidity sqrtPriceCurrent) denom))"

definition getNextSqrtPriceFromAmount1InRoundingDown :: "dec \<Rightarrow> dec \<Rightarrow> dec \<Rightarrow> error + dec" where
  "getNextSqrtPriceFromAmount1InRoundingDown sqrtPriceCurrent liquidity amountRemaining =
     (if liquidity = 0 then Inl DivideByZero
      else Inr (sqrtPriceCurrent + quoTruncate amountRemaining liquidity))"

definition getFeeChargePerSwapStepOutGivenIn :: "bool \<Rightarrow> dec \<Rightarrow> dec \<Rightarrow> dec \<Rightarrow> error + dec" where
  "getFeeChargePerSwapStepOutGivenIn hasReachedTarget amountIn amountSpecifiedRemaining swapFee =
     (if swapFee < 0 then Inl SwapFeeNegative
      else if swapFee = 0 then Inr 0
      else if hasReachedTarget \<and> ofInt 1 - swapFee = 0 then Inl DivideByZero
      else
        let feeChargeTotal =
              (if hasReachedTarget then quo (mul amountIn swapFee) (ofInt 1 - swapFee)
               else amountSpecifiedRemaining - amountIn)
        in if feeChargeTotal < 0 then Inl FeeChargeNegative else Inr feeChargeTotal)"

function approxRootLoop :: "dec \<Rightarrow> int \<Rightarrow> nat \<Rightarrow> dec \<Rightarrow> dec \<Rightarrow> nat \<Rightarrow> dec" where
  \<comment> \<open>The \<^verbatim>\<open>for\<close> loop of \<^verbatim>\<open>approxRoot\<close>, with the loop variables
      \<^verbatim>\<open>guess\<close>, \<^verbatim>\<open>delta\<close> and \<^verbatim>\<open>i\<close>.\<close>
  "approxRootLoop d root maxIters guess delta i =
     (if \<bar>delta\<bar> > smallestDec \<and> i < maxIters
      then
        let prev0 = decPow guess (root - 1);
            prev = (if prev0 = 0 then smallestDec else prev0);
            delta1 = quo d prev;
            delta2 = delta1 - guess;
            delta3 = quoTruncate delta2 (ofInt root)
        in approxRootLoop d root maxIters (guess + delta3) delta3 (i + 1)
      else guess)"
  by pat_completeness auto
termination
  by (relation "measure (\<lambda>(d, root, maxIters, guess, delta, i). maxIters - i)") auto

declare approxRootLoop.simps [simp del]

definition approxRootPos :: "dec \<Rightarrow> int \<Rightarrow> nat \<Rightarrow> dec" where
  \<comment> \<open>\<^verbatim>\<open>approxRoot\<close> below its sign test. The source never passes a root of zero to
      the loop; \<^verbatim>\<open>approxSqrt\<close> passes 2.\<close>
  "approxRootPos d root maxIters =
     (if root = 1 \<or> d = 0 \<or> d = ofInt 1 then d
      else if root = 0 then ofInt 1
      else approxRootLoop d root maxIters (ofInt 1) (ofInt 1) 0)"

definition approxRoot :: "dec \<Rightarrow> int \<Rightarrow> nat \<Rightarrow> dec" where
  \<comment> \<open>The recursive call on a negative argument uses the default \<^verbatim>\<open>maxIters = 300\<close>.\<close>
  "approxRoot d root maxIters =
     (if d < 0 then - approxRootPos (- d) root 300 else approxRootPos d root maxIters)"

definition approxSqrt :: "dec \<Rightarrow> dec" where
  "approxSqrt d = approxRoot d 2 300"

definition addLiquidity :: "dec \<Rightarrow> dec \<Rightarrow> dec" where
  "addLiquidity a b = (if b < 0 then a - \<bar>b\<bar> else a + b)"

section \<open>Extended-precision decimals\<close>

text \<open>
  Modelled from the spec: \<^verbatim>\<open>big-dec.ts\<close> (\<^verbatim>\<open>BigDec\<close>) is not among the sources. The
  spec calls it an extended-precision accumulator; it is modelled as the same decimal
  with 36 places, whose conversion back to 18 places drops the extra digits.
\<close>

type_synonym bigdec = int

definition bigPrecision :: int where
  "bigPrecision = 10 ^ 36"

definition bigOfInt :: "int \<Rightarrow> bigdec" where
  "bigOfInt n = n * bigPrecision"

definition bigOfDec :: "dec \<Rightarrow> bigdec" where
  "bigOfDec d = d * decPrecision"

definition bigToDec :: "bigdec \<Rightarrow> dec" where
  "bigToDec b = bigDivide b decPrecision"

definition bigMul :: "bigdec \<Rightarrow> bigdec \<Rightarrow> bigdec" where
  "bigMul a b = chopPrecisionAndRound bigPrecision (a * b)"

definition bigQuo :: "bigdec \<Rightarrow> bigdec \<Rightarrow> bigdec" where
  "bigQuo a b = chopPrecisionAndRound bigPrecision (bigDivide (a * bigPrecision * bigPrecision) b)"

function bigPowLoop :: "bigdec \<Rightarrow> bigdec \<Rightarrow> int \<Rightarrow> bigdec" where
  "bigPowLoop base tmp i =
     (if i > 1
      then bigPowLoop (bigMul base base) (if i mod 2 \<noteq> 0 then bigMul tmp base else tmp) (i div 2)
      else bigMul base tmp)"
  by pat_completeness auto
termination
  by (relation "measure (\<lambda>(base, tmp, i). nat i)") auto

declare bigPowLoop.simps [simp del]

definition bigPow :: "bigdec \<Rightarrow> int \<Rightarrow> bigdec" where
  \<comment> \<open>Only called with an exponent that is not negative.\<close>
  "bigPow a n = (if n = 0 then bigOfInt 1 else bigPowLoop a (bigOfInt 1) n)"

section \<open>Tick arithmetic (tick.ts)\<close>

text \<open>
  \<^verbatim>\<open>const.ts\<close> is not among the sources. The bounds it exports are a parameter of every
  function below that reads them.
\<close>

record bounds =
  exponentAtPriceOneMin :: int
  exponentAtPriceOneMax :: int
  minSpotPrice :: dec
  maxSpotPrice :: dec

definition getTenExponentN :: "int \<Rightarrow> error + dec" where
  \<comment> \<open>\<^verbatim>\<open>DecUtils.getTenExponentN\<close> of \<^verbatim>\<open>@keplr-wallet/unit\<close>: it refuses an exponent
      below the 18 places of a \<^verbatim>\<open>Dec\<close>.\<close>
  "getTenExponentN n = (if n < - 18 then Inl TooLittlePrecision else Inr (decPow (ofInt 10) n))"

definition computeMinMaxTicksFromExponentAtPriceOne :: "int \<Rightarrow> int \<times> int" where
  \<comment> \<open>The pair \<open>(minTick, maxTick)\<close>.\<close>
  "computeMinMaxTicksFromExponentAtPriceOne exponentAtPriceOne =
     (let geometricExponentIncrementDistanceInTicks =
            mul (ofInt 9) (decPow (ofInt 10) (- exponentAtPriceOne))
      in (decRound (- mul (ofInt 18) geometricExponentIncrementDistanceInTicks),
          decTruncate (mul (ofInt 38) geometricExponentIncrementDistanceInTicks)))"

definition tickToPrice :: "bounds \<Rightarrow> int \<Rightarrow> int \<Rightarrow> error + dec" where
  \<comment> \<open>The body of \<^verbatim>\<open>tickToSqrtPrice\<close> from its exponent check to its price check: the
      price whose square root the function returns.\<close>
  "tickToPrice K tickIndex exponentAtPriceOne =
     (if exponentAtPriceOne > exponentAtPriceOneMax K \<or> exponentAtPriceOne < exponentAtPriceOneMin K
      then Inl ExponentOutOfRange
      else case getTenExponentN (- exponentAtPriceOne) of
        Inl e \<Rightarrow> Inl e
      | Inr ten \<Rightarrow>
        let geometricExponentIncrementDistanceInTicks = mul (ofInt 9) ten;
            (minTick, maxTick) = computeMinMaxTicksFromExponentAtPriceOne exponentAtPriceOne
        in if tickIndex < minTick \<or> tickIndex > maxTick then Inl TickIndexOutOfRange
           else if decTruncate geometricExponentIncrementDistanceInTicks = 0 then Inl DivideByZero
           else
             let geometricExponentDelta =
                   decTruncate (quoTruncate (ofInt tickIndex)
                     (ofInt (decTruncate geometricExponentIncrementDistanceInTicks)));
                 exponentAtCurTick0 = exponentAtPriceOne + geometricExponentDelta;
                 exponentAtCurTick =
                   (if tickIndex < 0 then exponentAtCurTick0 - 1 else exponentAtCurTick0)
             in case getTenExponentN exponentAtCurTick of
               Inl e \<Rightarrow> Inl e
             | Inr currentAdditiveIncrementInTicks \<Rightarrow>
               let numAdditiveTicks =
                     tickIndex - geometricExponentDelta
                       * decTruncate geometricExponentIncrementDistanceInTicks
               in case getTenExponentN geometricExponentDelta of
                 Inl e \<Rightarrow> Inl e
               | Inr tenDelta \<Rightarrow>
                 let price = bigToDec (bigOfDec tenDelta
                       + bigMul (bigOfInt numAdditiveTicks) (bigOfDec currentAdditiveIncrementInTicks))
                 in if price > maxSpotPrice K \<or> price < minSpotPrice K then Inl PriceOutOfRange
                    else Inr price)"

definition tickToSqrtPrice :: "bounds \<Rightarrow> int \<Rightarrow> int \<Rightarrow> error + dec" where
  "tickToSqrtPrice K tickIndex exponentAtPriceOne =
     (if tickIndex = 0 then Inr (ofInt 1)
      else case tickToPrice K tickIndex exponentAtPriceOne of
        Inl e \<Rightarrow> Inl e
      | Inr price \<Rightarrow> Inr (approxSqrt price))"

definition powTenBigDec :: "int \<Rightarrow> error + bigdec" where
  "powTenBigDec exponent =
     (if exponent \<ge> 0 then Inr (bigPow (bigOfInt 10) exponent)
      else if bigPow (bigOfInt 10) \<bar>exponent\<bar> = 0 then Inl DivideByZero
      else Inr (bigQuo (bigOfInt 1) (bigPow (bigOfInt 10) \<bar>exponent\<bar>)))"

text \<open>
  The two \<^verbatim>\<open>while\<close> loops of \<^verbatim>\<open>calculatePriceAndTicksPassed\<close>. The loop variables
  are \<^verbatim>\<open>currentPrice\<close>, \<^verbatim>\<open>ticksPassed\<close>, \<^verbatim>\<open>exponentAtCurTick\<close> and
  \<^verbatim>\<open>currentAdditiveIncrementInTicks\<close>; \<open>g\<close> is
  \<^verbatim>\<open>geometricExponentIncrementDistanceInTicks\<close>. The downward loop does not end for a
  price that no multiple of its shrinking steps reaches: a run that does not end is
  \<open>None\<close>.
\<close>

partial_function (option) priceLoopUp ::
  "dec \<Rightarrow> dec \<Rightarrow> dec \<Rightarrow> int \<Rightarrow> int \<Rightarrow> bigdec \<Rightarrow> (error + dec \<times> int \<times> bigdec) option" where
  "priceLoopUp g price currentPrice ticksPassed exponentAtCurTick inc =
     (if currentPrice < price
      then case powTenBigDec exponentAtCurTick of
        Inl e \<Rightarrow> Some (Inl e)
      | Inr inc' \<Rightarrow>
          priceLoopUp g price
            (currentPrice + bigToDec (bigMul (bigOfDec g) inc'))
            (ticksPassed + decTruncate g) (exponentAtCurTick + 1) inc'
      else Some (Inr (currentPrice, ticksPassed, inc)))"

partial_function (option) priceLoopDown ::
  "dec \<Rightarrow> dec \<Rightarrow> dec \<Rightarrow> int \<Rightarrow> int \<Rightarrow> bigdec \<Rightarrow> (error + dec \<times> int \<times> bigdec) option" where
  "priceLoopDown g price currentPrice ticksPassed exponentAtCurTick inc =
     (if currentPrice > price
      then case powTenBigDec exponentAtCurTick of
        Inl e \<Rightarrow> Some (Inl e)
      | Inr inc' \<Rightarrow>
          priceLoopDown g price
            (currentPrice - bigToDec (bigMul (bigOfDec g) inc'))
            (ticksPassed - decTruncate g) (exponentAtCurTick - 1) inc'
      else Some (Inr (currentPrice, ticksPassed, inc)))"

declare priceLoopUp.simps [code]

declare priceLoopDown.simps [code]

definition calculatePriceAndTicksPassed ::
  "dec \<Rightarrow> int \<Rightarrow> (error + dec \<times> int \<times> bigdec) option" where
  \<comment> \<open>The triple \<open>(currentPrice, ticksPassed, currentAdditiveIncrementInTicks)\<close>.\<close>
  "calculatePriceAndTicksPassed price exponentAtPriceOne =
     (case getTenExponentN (- exponentAtPriceOne) of
        Inl e \<Rightarrow> Some (Inl e)
      | Inr ten \<Rightarrow>
        let geometricExponentIncrementDistanceInTicks = mul (ofInt 9) ten
        in case powTenBigDec exponentAtPriceOne of
          Inl e \<Rightarrow> Some (Inl e)
        | Inr inc \<Rightarrow>
          if price > ofInt 1
          then priceLoopUp geometricExponentIncrementDistanceInTicks price (ofInt 1) 0
                 exponentAtPriceOne inc
          else priceLoopDown geometricExponentIncrementDistanceInTicks price (ofInt 1) 0
                 (exponentAtPriceOne - 1) inc)"

definition priceToTick :: "bounds \<Rightarrow> dec \<Rightarrow> int \<Rightarrow> (error + int) option" where
  "priceToTick K price exponentAtPriceOne =
     (if price = ofInt 1 then Some (Inr 0)
      else if price < 0 then Some (Inl PriceNegative)
      else if price > maxSpotPrice K \<or> price < minSpotPrice K then Some (Inl PriceOutOfRange)
      else if exponentAtPriceOne > exponentAtPriceOneMax K
              \<or> exponentAtPriceOne < exponentAtPriceOneMin K
      then Some (Inl ExponentOutOfRange)
      else case calculatePriceAndTicksPassed price exponentAtPriceOne of
        None \<Rightarrow> None
      | Some (Inl e) \<Rightarrow> Some (Inl e)
      | Some (Inr (currentPrice, ticksPassed, currentAdditiveIncrementInTicks)) \<Rightarrow>
          if currentAdditiveIncrementInTicks = 0 then Some (Inl DivideByZero)
          else
            let ticksToBeFilledByExponentAtCurrentTick =
                  bigQuo (bigOfDec (price - currentPrice)) currentAdditiveIncrementInTicks;
                tickIndex = ticksPassed
                  + decTruncate (bigToDec ticksToBeFilledByExponentAtCurrentTick);
                (minTick, maxTick) = computeMinMaxTicksFromExponentAtPriceOne exponentAtPriceOne
            in if tickIndex < minTick \<or> tickIndex > maxTick then Some (Inl TickIndexOutOfRange)
               else Some (Inr tickIndex))"

section \<open>Swap simulator (swap-strategy.ts, quotes.ts)\<close>

record swapStep =
  sqrtPriceNext :: dec
  amountInConsumed :: dec
  amountOutComputed :: dec
  feeChargeTotal :: dec

text \<open>The interface \<^verbatim>\<open>SwapStrategy\<close>, with the methods \<^verbatim>\<open>calcOutGivenIn\<close> calls.\<close>

record swapStrategy =
  getSqrtTargetPrice :: "dec \<Rightarrow> dec"
  computeSwapStepOutGivenIn :: "dec \<Rightarrow> dec \<Rightarrow> dec \<Rightarrow> dec \<Rightarrow> error + swapStep"
  initTickValue :: "int \<Rightarrow> int"
  setLiquidityDeltaSign :: "dec \<Rightarrow> dec"

text \<open>
  What \<^verbatim>\<open>quotes.ts\<close> imports and the sources do not hold: the two strategy classes
  (\<^verbatim>\<open>zero-for-one.ts\<close>, \<^verbatim>\<open>one-for-zero.ts\<close>), each built from a sqrt-price limit and a
  swap fee, and \<^verbatim>\<open>sqrtPriceToTick\<close>. They are a parameter of the simulator.
\<close>

record quoteImports =
  zeroForOneStrategy :: "dec \<Rightarrow> dec \<Rightarrow> swapStrategy"
  oneForZeroStrategy :: "dec \<Rightarrow> dec \<Rightarrow> swapStrategy"
  sqrtPriceToTick :: "dec \<Rightarrow> int \<Rightarrow> error + int"

definition makeSwapStrategy :: "quoteImports \<Rightarrow> bool \<Rightarrow> dec \<Rightarrow> dec \<Rightarrow> swapStrategy" where
  "makeSwapStrategy I izZeroForOne sqrtPriceLimit swapFee =
     (if izZeroForOne then zeroForOneStrategy I sqrtPriceLimit swapFee
      else oneForZeroStrategy I sqrtPriceLimit swapFee)"

record coin =
  denom :: string
  amount :: int

record swapState =
  amountRemaining :: dec
  amountCalculated :: dec
  sqrtPrice :: dec
  tick :: int
  liquidity :: dec
  feeGrowthGlobal :: dec

definition tickAt :: "int list \<Rightarrow> int \<Rightarrow> int option" where
  \<comment> \<open>\<^verbatim>\<open>tickDepths?.[i]\<close>: \<^verbatim>\<open>undefined\<close> outside the array.\<close>
  "tickAt tickDepths i =
     (if 0 \<le> i \<and> i < int (length tickDepths) then Some (tickDepths ! nat i) else None)"

definition swapContinues :: "dec \<Rightarrow> swapState \<Rightarrow> bool" where
  \<comment> \<open>The condition of the \<^verbatim>\<open>while\<close> loop.\<close>
  "swapContinues sqrtPriceLimit st \<longleftrightarrow>
     amountRemaining st > smallestDec \<and> sqrtPrice st \<noteq> sqrtPriceLimit"

definition swapIteration ::
  "bounds \<Rightarrow> quoteImports \<Rightarrow> swapStrategy \<Rightarrow> int \<Rightarrow> swapState \<Rightarrow> int \<Rightarrow> error + swapState" where
  \<comment> \<open>The body of the \<^verbatim>\<open>while\<close> loop at the tick \<^verbatim>\<open>nextTick\<close>. This revision of the
      source holds bare tick indices in \<^verbatim>\<open>tickDepths\<close> and passes
      \<^verbatim>\<open>new Dec(nextTick)\<close> as the liquidity delta of a crossed tick.\<close>
  "swapIteration K I swapStrategy precisionFactorAtPriceOne st nextTick =
     (let sqrtPriceStart = sqrtPrice st in
      case tickToSqrtPrice K nextTick precisionFactorAtPriceOne of
        Inl e \<Rightarrow> Inl e
      | Inr nextTickSqrtPrice \<Rightarrow>
        let sqrtPriceTarget = getSqrtTargetPrice swapStrategy nextTickSqrtPrice in
        case computeSwapStepOutGivenIn swapStrategy (sqrtPrice st) sqrtPriceTarget
               (liquidity st) (amountRemaining st) of
          Inl e \<Rightarrow> Inl e
        | Inr step \<Rightarrow>
          let st1 = st\<lparr>sqrtPrice := sqrtPriceNext step,
                       amountRemaining := amountRemaining st
                         - (amountInConsumed step + feeChargeTotal step),
                       amountCalculated := amountCalculated st + amountOutComputed step\<rparr>
          in if nextTickSqrtPrice = sqrtPriceNext step
             then
               let liquidityNet = setLiquidityDeltaSign swapStrategy (ofInt nextTick)
               in Inr (st1\<lparr>liquidity := addLiquidity (liquidity st1) liquidityNet\<rparr>)
             else if sqrtPriceStart \<noteq> sqrtPriceNext step
             then case sqrtPriceToTick I (sqrtPriceNext step) precisionFactorAtPriceOne of
                    Inl e \<Rightarrow> Inl e
                  | Inr t \<Rightarrow> Inr (st1\<lparr>tick := t\<rparr>)
             else Inr st1)"

function swapLoop ::
  "bounds \<Rightarrow> quoteImports \<Rightarrow> swapStrategy \<Rightarrow> int \<Rightarrow> dec \<Rightarrow> int list \<Rightarrow> swapState \<Rightarrow> int
     \<Rightarrow> error + swapState" where
  "swapLoop K I swapStrategy precisionFactorAtPriceOne sqrtPriceLimit tickDepths st i =
     (if swapContinues sqrtPriceLimit st
      then case tickAt tickDepths i of
        None \<Rightarrow> Inl TickOverflowError
      | Some nextTick \<Rightarrow>
          (case swapIteration K I swapStrategy precisionFactorAtPriceOne st nextTick of
             Inl e \<Rightarrow> Inl e
           | Inr st' \<Rightarrow>
               swapLoop K I swapStrategy precisionFactorAtPriceOne sqrtPriceLimit tickDepths st' (i + 1))
      else Inr st)"
  by pat_completeness auto
termination
  by (relation "measure (\<lambda>(K, I, swapStrategy, precisionFactorAtPriceOne, sqrtPriceLimit,
        tickDepths, st, i). nat (int (length tickDepths) - i))")
    (auto simp: tickAt_def split: if_splits)

declare swapLoop.simps [simp del]

definition swapOutGivenIn ::
  "bounds \<Rightarrow> quoteImports \<Rightarrow> coin \<Rightarrow> string \<Rightarrow> dec \<Rightarrow> int list \<Rightarrow> int \<Rightarrow> int \<Rightarrow> dec \<Rightarrow> int
     \<Rightarrow> dec \<Rightarrow> dec \<Rightarrow> error + swapState" where
  \<comment> \<open>\<^verbatim>\<open>calcOutGivenIn\<close> up to the end of its loop: the swap state the loop leaves.
      The default \<^verbatim>\<open>priceLimit = new Dec(0)\<close> is passed as \<open>0\<close>.\<close>
  "swapOutGivenIn K I tokenIn tokenDenom0 poolLiquidity tickDepths curTickIndex curTick
       curSqrtPrice precisionFactorAtPriceOne swapFee priceLimit0 =
     (let tokenInAmountSpecified = ofInt (amount tokenIn);
          isZeroForOne = (denom tokenIn = tokenDenom0);
          priceLimit =
            (if isZeroForOne \<and> priceLimit0 = ofInt 0 then minSpotPrice K
             else if \<not> isZeroForOne \<and> priceLimit0 = ofInt 0 then maxSpotPrice K
             else priceLimit0);
          sqrtPriceLimit = approxSqrt priceLimit;
          swapStrategy = makeSwapStrategy I isZeroForOne sqrtPriceLimit swapFee;
          swapState = \<lparr>amountRemaining = tokenInAmountSpecified,
                       amountCalculated = ofInt 0,
                       sqrtPrice = curSqrtPrice,
                       tick = initTickValue swapStrategy curTick,
                       liquidity = poolLiquidity,
                       feeGrowthGlobal = ofInt 0\<rparr>
      in swapLoop K I swapStrategy precisionFactorAtPriceOne sqrtPriceLimit tickDepths
           swapState curTickIndex)"

definition calcOutGivenIn ::
  "bounds \<Rightarrow> quoteImports \<Rightarrow> coin \<Rightarrow> string \<Rightarrow> dec \<Rightarrow> int list \<Rightarrow> int \<Rightarrow> int \<Rightarrow> dec \<Rightarrow> int
     \<Rightarrow> dec \<Rightarrow> dec \<Rightarrow> error + int" where
  "calcOutGivenIn K I tokenIn tokenDenom0 poolLiquidity tickDepths curTickIndex curTick
       curSqrtPrice precisionFactorAtPriceOne swapFee priceLimit0 =
     (case swapOutGivenIn K I tokenIn tokenDenom0 poolLiquidity tickDepths curTickIndex curTick
             curSqrtPrice precisionFactorAtPriceOne swapFee priceLimit0 of
        Inl e \<Rightarrow> Inl e
      | Inr swapState \<Rightarrow> Inr (decTruncate (amountCalculated swapState)))"

subsection \<open>The strategies and bounds of the reference fixtures\<close>

text \<open>
  Modelled from the spec: \<^verbatim>\<open>one-for-zero.ts\<close> and \<^verbatim>\<open>zero-for-one.ts\<close> are not among
  the sources. The spec gives one step algorithm for both directions: the target is the
  nearer of the next tick's sqrt-price and the price limit; the next sqrt-price is the
  one reachable with the remaining input less its fee, clamped to the target; when the
  target is not reached the amount consumed is recomputed at the price reached; amounts
  going into the pool are rounded up and amounts going out are not; the fee is that of
  \<^verbatim>\<open>getFeeChargePerSwapStepOutGivenIn\<close>; crossing a tick adds its liquidity delta when
  the price rises and subtracts it when the price falls. The spec does not say what
  \<^verbatim>\<open>initTickValue\<close> returns; the simulator never reads the tick it stores.
\<close>

definition oneForZero :: "dec \<Rightarrow> dec \<Rightarrow> swapStrategy" where
  "oneForZero sqrtPriceLimit swapFee =
     \<lparr>getSqrtTargetPrice = (\<lambda>nextTickSqrtPrice.
        if nextTickSqrtPrice > sqrtPriceLimit then sqrtPriceLimit else nextTickSqrtPrice),
      computeSwapStepOutGivenIn = (\<lambda>curSqrtPrice sqrtPriceTarget liquidity amountOneInRemaining.
        let amountOneIn0 = calcAmount1Delta liquidity sqrtPriceTarget curSqrtPrice True;
            amountOneInRemainingLessFee = mul amountOneInRemaining (ofInt 1 - swapFee)
        in case (if amountOneInRemainingLessFee \<ge> amountOneIn0 then Inr sqrtPriceTarget
                 else getNextSqrtPriceFromAmount1InRoundingDown curSqrtPrice liquidity
                        amountOneInRemainingLessFee) of
          Inl e \<Rightarrow> Inl e
        | Inr next \<Rightarrow>
          let hasReachedTarget = (sqrtPriceTarget = next);
              amountOneIn = (if \<not> hasReachedTarget
                             then calcAmount1Delta liquidity next curSqrtPrice True
                             else amountOneIn0)
          in case calcAmount0Delta liquidity next curSqrtPrice False of
            Inl e \<Rightarrow> Inl e
          | Inr amountZeroOut \<Rightarrow>
            (case getFeeChargePerSwapStepOutGivenIn hasReachedTarget amountOneIn
                    amountOneInRemaining swapFee of
               Inl e \<Rightarrow> Inl e
             | Inr fee \<Rightarrow>
                 Inr \<lparr>sqrtPriceNext = next, amountInConsumed = amountOneIn,
                      amountOutComputed = amountZeroOut, feeChargeTotal = fee\<rparr>)),
      initTickValue = (\<lambda>curTick. curTick),
      setLiquidityDeltaSign = (\<lambda>liquidityDelta. liquidityDelta)\<rparr>"

definition zeroForOne :: "dec \<Rightarrow> dec \<Rightarrow> swapStrategy" where
  "zeroForOne sqrtPriceLimit swapFee =
     \<lparr>getSqrtTargetPrice = (\<lambda>nextTickSqrtPrice.
        if nextTickSqrtPrice < sqrtPriceLimit then sqrtPriceLimit else nextTickSqrtPrice),
      computeSwapStepOutGivenIn = (\<lambda>curSqrtPrice sqrtPriceTarget liquidity amountZeroInRemaining.
        case calcAmount0Delta liquidity sqrtPriceTarget curSqrtPrice True of
          Inl e \<Rightarrow> Inl e
        | Inr amountZeroIn0 \<Rightarrow>
          let amountZeroInRemainingLessFee = mul amountZeroInRemaining (ofInt 1 - swapFee)
          in case (if amountZeroInRemainingLessFee \<ge> amountZeroIn0 then Inr sqrtPriceTarget
                   else getNextSqrtPriceFromAmount0InRoundingUp curSqrtPrice liquidity
                          amountZeroInRemainingLessFee) of
            Inl e \<Rightarrow> Inl e
          | Inr next \<Rightarrow>
            let hasReachedTarget = (sqrtPriceTarget = next)
            in case (if \<not> hasReachedTarget
                     then calcAmount0Delta liquidity next curSqrtPrice True
                     else Inr amountZeroIn0) of
              Inl e \<Rightarrow> Inl e
            | Inr amountZeroIn \<Rightarrow>
              let amountOneOut = calcAmount1Delta liquidity next curSqrtPrice False
              in (case getFeeChargePerSwapStepOutGivenIn hasReachedTarget amountZeroIn
                         amountZeroInRemaining swapFee of
                    Inl e \<Rightarrow> Inl e
                  | Inr fee \<Rightarrow>
                      Inr \<lparr>sqrtPriceNext = next, amountInConsumed = amountZeroIn,
                           amountOutComputed = amountOneOut, feeChargeTotal = fee\<rparr>)),
      initTickValue = (\<lambda>curTick. curTick),
      setLiquidityDeltaSign = (\<lambda>liquidityDelta. - liquidityDelta)\<rparr>"

definition referenceBounds :: bounds where
  \<comment> \<open>The bounds of the chain implementation the fixtures are taken from: exponents
      from -12 to -1, spot prices from \<open>10\<^sup>-\<^sup>1\<^sup>8\<close> to \<open>10\<^sup>3\<^sup>8\<close> (the 18 and 38 of
      \<^verbatim>\<open>computeMinMaxTicksFromExponentAtPriceOne\<close>).\<close>
  "referenceBounds =
     \<lparr>exponentAtPriceOneMin = - 12, exponentAtPriceOneMax = - 1,
      minSpotPrice = 1, maxSpotPrice = 10 ^ 38 * decPrecision\<rparr>"

definition referenceImports :: quoteImports where
  \<comment> \<open>Modelled from the spec: \<^verbatim>\<open>sqrtPriceToTick\<close> recomputes the tick index from the new
      sqrt-price, that is from its square. A conversion that does not end is reported
      as an error here; the fixtures never meet one.\<close>
  "referenceImports =
     \<lparr>zeroForOneStrategy = zeroForOne,
      oneForZeroStrategy = oneForZero,
      sqrtPriceToTick = (\<lambda>sqrtPrice exponentAtPriceOne.
        case priceToTick referenceBounds (decPow sqrtPrice 2) exponentAtPriceOne of
          None \<Rightarrow> Inl StrategyError
        | Some r \<Rightarrow> r)\<rparr>"

subsection \<open>The simulator of the reference fixtures\<close>





section \<open>Route splitting (router)\<close>

text \<open>
  \<^verbatim>\<open>findBestSplitTokenIn\<close> of the router \<^verbatim>\<open>OptimizedRoutes\<close>. The search works on
  the array \<^verbatim>\<open>zeroAmountRoutes\<close> of route objects, which it mutates in place; a route is
  referred to here by its index in that array, and \<open>objects\<close> holds the two fields the
  search writes, \<^verbatim>\<open>initialAmount\<close> and \<^verbatim>\<open>outAmount\<close>, of every object. The quote
  \<^verbatim>\<open>this.calculateTokenOutByTokenIn([route])\<close> is the parameter \<open>calculate\<close>, of the route
  and its input amount, and may throw; \<^verbatim>\<open>cacheKeyForRoute\<close>, imported from \<^verbatim>\<open>./route\<close>, is a
  parameter as well. \<^verbatim>\<open>remainingRoutes.shift()\<close> and \<^verbatim>\<open>unshift(route)\<close> are the head
  and tail of the list of remaining indices, \<^verbatim>\<open>currentSplit.push(route)\<close> and \<^verbatim>\<open>pop()\<close>
  the list \<open>currentSplit @ [route]\<close> passed to the recursive call.
\<close>

datatype rerror = MaxIterationsError | NotEnoughLiquidityError | QuoteError

record amounts =
  initialAmount :: int
  outAmount :: int


text \<open>The amount tried at step \<open>i\<close>:
  \<^verbatim>\<open>new Dec(remainingInAmount).mul(new Dec(i).quo(new Dec(maxIterations))).truncate()\<close>.\<close>

definition splitInAmount :: "int \<Rightarrow> nat \<Rightarrow> int \<Rightarrow> int" where
  "splitInAmount remainingInAmount i maxIterations =
     (let fraction = quo (ofInt (int i)) (ofInt maxIterations)
      in decTruncate (mul (ofInt remainingInAmount) fraction))"






subsection \<open>The earlier revision of the router\<close>

text \<open>
  The earlier revision of \<^verbatim>\<open>findBestSplitTokenIn\<close> has no cache, keeps
  \<^verbatim>\<open>currentSplit.slice()\<close> as the best split, which is a new array of the same objects
  (here: their indices, read at the end from the final store), rejects only
  \<^verbatim>\<open>maxIterations === 0\<close> and returns \<^verbatim>\<open>bestSplit\<close> as it is.
\<close>

record search8 =
  objects8 :: "amounts list"
  bestSplit8 :: "nat list"
  bestOutAmount8 :: int

function splitRecursive8 ::
  "(nat \<Rightarrow> int \<Rightarrow> rerror + int) \<Rightarrow> int \<Rightarrow> int \<Rightarrow> nat list \<Rightarrow> nat list \<Rightarrow> search8
     \<Rightarrow> rerror + search8"
and splitLoop8 ::
  "(nat \<Rightarrow> int \<Rightarrow> rerror + int) \<Rightarrow> int \<Rightarrow> int \<Rightarrow> nat \<Rightarrow> nat list \<Rightarrow> nat list \<Rightarrow> nat
     \<Rightarrow> search8 \<Rightarrow> rerror + search8"
where
  "splitRecursive8 calculate maxIterations remainingInAmount [] currentSplit s =
     (let totalOutAmount = sum_list (map (\<lambda>r. outAmount (objects8 s ! r)) currentSplit)
      in if totalOutAmount > bestOutAmount8 s
         then Inr (s\<lparr>bestOutAmount8 := totalOutAmount, bestSplit8 := currentSplit\<rparr>)
         else Inr s)"
| "splitRecursive8 calculate maxIterations remainingInAmount (route # remainingRoutes)
       currentSplit s =
     splitLoop8 calculate maxIterations remainingInAmount route remainingRoutes currentSplit 0 s"
| "splitLoop8 calculate maxIterations remainingInAmount route remainingRoutes currentSplit i s =
     (if int i \<le> maxIterations
      then
        let inAmount = splitInAmount remainingInAmount i maxIterations
        in if inAmount = 0
           then splitLoop8 calculate maxIterations remainingInAmount route remainingRoutes
                  currentSplit (i + 1) s
           else
             let s1 = s\<lparr>objects8 := (objects8 s)
                        [route := (objects8 s ! route)\<lparr>initialAmount := inAmount\<rparr>]\<rparr>
             in case calculate route inAmount of
               Inl e \<Rightarrow> Inl e
             | Inr out \<Rightarrow>
                 if out = 0
                 then splitLoop8 calculate maxIterations remainingInAmount route remainingRoutes
                        currentSplit (i + 1) s1
                 else
                   let s3 = s1\<lparr>objects8 := (objects8 s1)
                              [route := (objects8 s1 ! route)\<lparr>outAmount := out\<rparr>]\<rparr>
                   in case splitRecursive8 calculate maxIterations (remainingInAmount - inAmount)
                             remainingRoutes (currentSplit @ [route]) s3 of
                     Inl e \<Rightarrow> Inl e
                   | Inr s4 \<Rightarrow>
                       splitLoop8 calculate maxIterations remainingInAmount route
                         remainingRoutes currentSplit (i + 1) s4
      else Inr s)"
  by pat_completeness auto
termination
  by (relation "inv_image (less_than <*lex*> less_than)
      (\<lambda>x. case x of
          Inl (calculate, maxIterations, remainingInAmount, remainingRoutes, currentSplit, s) \<Rightarrow>
            (2 * length remainingRoutes, 0)
        | Inr (calculate, maxIterations, remainingInAmount, route, remainingRoutes, currentSplit,
               i, s) \<Rightarrow>
            (2 * length remainingRoutes + 1, nat (maxIterations + 1 - int i)))")
    auto

definition findBestSplitTokenIn8 ::
  "(nat \<Rightarrow> int \<Rightarrow> rerror + int) \<Rightarrow> nat \<Rightarrow> int \<Rightarrow> int \<Rightarrow> rerror + (nat \<times> int) list" where
  "findBestSplitTokenIn8 calculate n tokenInAmount maxIterations =
     (if maxIterations = 0 then Inl MaxIterationsError
      else if n = 0 then Inr []
      else if n = 1 then Inr [(0, tokenInAmount)]
      else
        case splitRecursive8 calculate maxIterations tokenInAmount [0..<n] []
               \<lparr>objects8 = replicate n \<lparr>initialAmount = 0, outAmount = 0\<rparr>,
                bestSplit8 = [], bestOutAmount8 = 0\<rparr> of
          Inl e \<Rightarrow> Inl e
        | Inr s \<Rightarrow> Inr (map (\<lambda>r. (r, initialAmount (objects8 s ! r))) (bestSplit8 s)))"

subsection \<open>Predicates on the search state\<close>




section \<open>Candidate routes (router)\<close>

record pool =
  poolId :: string
  poolAssetDenoms :: "string list"

record route =
  pools :: "pool list"
  tokenOutDenoms :: "string list"
  tokenInDenom :: string

record router =
  sortedPools :: "pool list"
  maxHops :: int
  maxRoutes :: int
  candidatePathsCache :: "string \<Rightarrow> route list option"

text \<open>
  The two nested \<^verbatim>\<open>forEach\<close> loops that set \<^verbatim>\<open>prevPoolCurPoolTokenMatch\<close>: the last
  denomination of the pool that also occurs among the previous token outs, if any.
\<close>

definition tokenMatch :: "string list \<Rightarrow> string list \<Rightarrow> string option" where
  "tokenMatch denoms previousTokenOuts =
     (case filter (\<lambda>denom. denom \<in> set previousTokenOuts) denoms of
        [] \<Rightarrow> None
      | d # ds \<Rightarrow> Some (last (d # ds)))"

text \<open>
  \<^verbatim>\<open>findRoutes\<close>, and its \<^verbatim>\<open>for\<close> loop from index \<open>i\<close> on. The arrays \<^verbatim>\<open>routes\<close> and
  \<^verbatim>\<open>currentTokenOuts\<close> are shared by all calls and mutated in place, so both are passed
  in and returned; \<^verbatim>\<open>currentRoute\<close> and \<^verbatim>\<open>poolsUsed\<close> are restored by the caller after
  each call (\<^verbatim>\<open>pop\<close>, \<^verbatim>\<open>poolsUsed[i] = false\<close>) and are passed down only.
  \<^verbatim>\<open>poolsUsed\<close>, an array of booleans as long as the pool list, is the set of the indices
  it marks. \<^verbatim>\<open>currentTokenOuts.pop()\<close> is \<open>butlast\<close>, which leaves an empty array empty.
\<close>

function findRoutes ::
  "router \<Rightarrow> string \<Rightarrow> string \<Rightarrow> pool list \<Rightarrow> nat set \<Rightarrow> string list option
     \<Rightarrow> route list \<times> string list \<Rightarrow> route list \<times> string list"
and findRoutesFrom ::
  "router \<Rightarrow> string \<Rightarrow> string \<Rightarrow> pool list \<Rightarrow> nat set \<Rightarrow> string list option \<Rightarrow> nat
     \<Rightarrow> route list \<times> string list \<Rightarrow> route list \<times> string list"
where
  "findRoutes R tokenIn tokenOut currentRoute poolsUsed previousTokenOuts0
       (routes, currentTokenOuts) =
     (if int (length currentRoute) > maxHops R then (routes, currentTokenOuts)
      else if currentRoute \<noteq> [] \<and> tokenOut \<in> set (poolAssetDenoms (last currentRoute))
      then (routes @ [\<lparr>pools = currentRoute, tokenOutDenoms = currentTokenOuts @ [tokenOut],
                        tokenInDenom = tokenIn\<rparr>], currentTokenOuts)
      else if int (length routes) > maxRoutes R then (routes, currentTokenOuts)
      else findRoutesFrom R tokenIn tokenOut currentRoute poolsUsed previousTokenOuts0 0
             (routes, currentTokenOuts))"
| "findRoutesFrom R tokenIn tokenOut currentRoute poolsUsed previousTokenOuts0 i
       (routes, currentTokenOuts) =
     (if i < length (sortedPools R) then
        if i \<in> poolsUsed
        then findRoutesFrom R tokenIn tokenOut currentRoute poolsUsed previousTokenOuts0 (i + 1)
               (routes, currentTokenOuts)
        else
          let previousTokenOuts =
                (case previousTokenOuts0 of Some p \<Rightarrow> p | None \<Rightarrow> [tokenIn]);
              curPool = sortedPools R ! i
          in case tokenMatch (poolAssetDenoms curPool) previousTokenOuts of
            None \<Rightarrow>
              findRoutesFrom R tokenIn tokenOut currentRoute poolsUsed previousTokenOuts0 (i + 1)
                (routes, currentTokenOuts)
          | Some prevPoolCurPoolTokenMatch \<Rightarrow>
              if prevPoolCurPoolTokenMatch = []
              then findRoutesFrom R tokenIn tokenOut currentRoute poolsUsed previousTokenOuts0
                     (i + 1) (routes, currentTokenOuts)
              else
                let pushed =
                      (if length (currentRoute @ [curPool]) > 1
                          \<and> prevPoolCurPoolTokenMatch \<noteq> tokenIn
                          \<and> prevPoolCurPoolTokenMatch \<noteq> tokenOut
                       then currentTokenOuts @ [prevPoolCurPoolTokenMatch]
                       else currentTokenOuts);
                    found = findRoutes R tokenIn tokenOut (currentRoute @ [curPool])
                      (insert i poolsUsed)
                      (Some (filter (\<lambda>denom. denom \<noteq> prevPoolCurPoolTokenMatch)
                          (poolAssetDenoms curPool)))
                      (routes, pushed)
                in findRoutesFrom R tokenIn tokenOut currentRoute poolsUsed previousTokenOuts0
                     (i + 1) (fst found, butlast (snd found))
      else (routes, currentTokenOuts))"
  by pat_completeness auto
termination
  apply (relation "inv_image (less_than <*lex*> less_than <*lex*> less_than)
      (\<lambda>x. case x of
          Inl (R, tin, tout, cur, used, prev, st) \<Rightarrow>
            (card ({..<length (sortedPools R)} - used), 1::nat, 0::nat)
        | Inr (R, tin, tout, cur, used, prev, i, st) \<Rightarrow>
            (card ({..<length (sortedPools R)} - used), 0, length (sortedPools R) - i))")
      apply auto
  apply (rule diff_less)
   apply simp
  apply (auto simp: card_gt_0_iff)
  done

declare findRoutes.simps [simp del]

declare findRoutesFrom.simps [simp del]

text \<open>\<^verbatim>\<open>getCandidateRoutes\<close>, with the cache of candidate paths as a field of the router.\<close>

definition getCandidateRoutes :: "router \<Rightarrow> string \<Rightarrow> string \<Rightarrow> route list \<times> router" where
  "getCandidateRoutes R tokenIn tokenOut =
     (if sortedPools R = [] then ([], R)
      else
        let cacheKey = tokenIn @ ''/'' @ tokenOut
        in case candidatePathsCache R cacheKey of
          Some cached \<Rightarrow> (cached, R)
        | None \<Rightarrow>
            let routes = fst (findRoutes R tokenIn tokenOut [] {} None ([], []))
            in (filter (\<lambda>r. int (length (pools r)) \<le> maxHops R) routes,
                R\<lparr>candidatePathsCache := (candidatePathsCache R)(cacheKey \<mapsto> routes)\<rparr>))"

text \<open>Three pools, two of them on the same pair of denominations, and a router on them.\<close>

definition cyclePools :: "pool list" where
  "cyclePools =
     [\<lparr>poolId = ''1'', poolAssetDenoms = [''A'', ''B'']\<rparr>,
      \<lparr>poolId = ''2'', poolAssetDenoms = [''B'', ''A'']\<rparr>,
      \<lparr>poolId = ''3'', poolAssetDenoms = [''A'', ''D'']\<rparr>]"

definition cycleRouter :: router where
  "cycleRouter = \<lparr>sortedPools = cyclePools, maxHops = 4, maxRoutes = 4,
     candidatePathsCache = Map.empty\<rparr>"

subsection \<open>Sorting the routes by weight\<close>

text \<open>\<^verbatim>\<open>Array.prototype.indexOf\<close>; \<open>None\<close> is its result -1.\<close>

fun indexOfFrom :: "'a list \<Rightarrow> 'a \<Rightarrow> nat \<Rightarrow> nat option" where
  "indexOfFrom [] x i = None"
| "indexOfFrom (y # ys) x i = (if y = x then Some i else indexOfFrom ys x (i + 1))"

definition indexOf :: "'a list \<Rightarrow> 'a \<Rightarrow> nat option" where
  "indexOf xs x = indexOfFrom xs x 0"

text \<open>\<^verbatim>\<open>routeWeights[pathIndex]\<close>; \<open>None\<close> is \<^verbatim>\<open>undefined\<close>, on which \<^verbatim>\<open>gte\<close> throws.\<close>

definition weightAt :: "dec list \<Rightarrow> nat option \<Rightarrow> dec option" where
  "weightAt routeWeights pathIndex =
     (case pathIndex of
        None \<Rightarrow> None
      | Some k \<Rightarrow> if k < length routeWeights then Some (routeWeights ! k) else None)"

text \<open>
  The comparison function that \<^verbatim>\<open>getOptimizedRoutesByTokenIn\<close> passes to
  \<^verbatim>\<open>routes.sort\<close>: a negative result asks for \<open>path1\<close> before \<open>path2\<close>, a positive one
  for \<open>path2\<close> before \<open>path1\<close>.
\<close>

definition compareRoutes :: "'r list \<Rightarrow> dec list \<Rightarrow> 'r \<Rightarrow> 'r \<Rightarrow> int option" where
  "compareRoutes routes routeWeights path1 path2 =
     (let path1Index = indexOf routes path1;
          path2Index = indexOf routes path2
      in case (weightAt routeWeights path1Index, weightAt routeWeights path2Index) of
        (Some path1Weight, Some path2Weight) \<Rightarrow>
          Some (if path1Weight \<ge> path2Weight then - 1 else 1)
      | _ \<Rightarrow> None)"

text \<open>Two routes, each through one pool of its own on the same pair of denominations.\<close>

definition directRoute :: route where
  "directRoute = \<lparr>pools = [\<lparr>poolId = ''1'', poolAssetDenoms = [''A'', ''C'']\<rparr>],
     tokenOutDenoms = [''C''], tokenInDenom = ''A''\<rparr>"

definition otherRoute :: route where
  "otherRoute = \<lparr>pools = [\<lparr>poolId = ''2'', poolAssetDenoms = [''A'', ''C'']\<rparr>],
     tokenOutDenoms = [''C''], tokenInDenom = ''A''\<rparr>"

section \<open>Properties\<close>

subsection \<open>Decimal arithmetic\<close>

lemma decPrecision_pos: "0 < decPrecision"
  by (simp add: decPrecision_def)

lemma chopRoundAbs_exact: "0 < p \<Longrightarrow> chopRoundAbs p (a * p) = a"
  by (simp add: chopRoundAbs_def Let_def)

lemma bigDivide_minus: "bigDivide (- a) b = - bigDivide a b"
  by (simp add: bigDivide_def)

lemma bigDivide_nonneg: "0 \<le> a \<Longrightarrow> 0 < b \<Longrightarrow> bigDivide a b = a div b"
  by (cases "a = 0") (simp_all add: bigDivide_def)

lemma chopPrecisionAndRound_minus: "chopPrecisionAndRound p (- d) = - chopPrecisionAndRound p d"
  by (cases "d = 0") (auto simp: chopPrecisionAndRound_def chopRoundAbs_def)

lemma chopPrecisionAndRound_exact:
  assumes "0 < p" shows "chopPrecisionAndRound p (a * p) = a"
proof (cases "0 \<le> a")
  case True
  with assms have "\<not> a * p < 0" by (simp add: mult_less_0_iff)
  with assms show ?thesis by (simp add: chopPrecisionAndRound_def chopRoundAbs_exact)
next
  case False
  with assms have "a * p < 0" by (simp add: mult_less_0_iff)
  moreover have "chopRoundAbs p (- a * p) = - a" using assms by (rule chopRoundAbs_exact)
  ultimately show ?thesis by (simp add: chopPrecisionAndRound_def)
qed

lemma mul_ofInt_1: "mul a (ofInt 1) = a"
  by (simp add: mul_def ofInt_def chopPrecisionAndRound_exact decPrecision_pos)

lemma decPow_1: "decPow g 1 = g"
  by (simp add: decPow_def powLoop.simps mul_ofInt_1)

lemma quoTruncate_minus: "quoTruncate (- x) b = - quoTruncate x b"
  by (simp add: quoTruncate_def chopPrecisionAndTruncate_def bigDivide_minus)

lemma quoTruncate_2_nonneg:
  assumes "0 \<le> x" shows "quoTruncate x (ofInt 2) = x div 2"
proof -
  have nn: "0 \<le> x * decPrecision * decPrecision"
    using assms decPrecision_pos by simp
  have "(x * decPrecision * decPrecision) div (2 * decPrecision) = (x * decPrecision) div 2"
    using decPrecision_pos by simp
  also have "\<dots> = x * 500000000000000000"
    by (simp add: decPrecision_def)
  finally have a: "(x * decPrecision * decPrecision) div (2 * decPrecision)
      = x * 500000000000000000" .
  have b: "(x * 500000000000000000) div decPrecision = x div 2"
    by (simp add: decPrecision_def)
  have nn2: "0 \<le> x * 500000000000000000"
    using assms by simp
  have "quoTruncate x (ofInt 2)
      = bigDivide (bigDivide (x * decPrecision * decPrecision) (2 * decPrecision)) decPrecision"
    by (simp add: quoTruncate_def chopPrecisionAndTruncate_def ofInt_def)
  also have "\<dots> = bigDivide (x * 500000000000000000) decPrecision"
    using bigDivide_nonneg [OF nn, of "2 * decPrecision"] decPrecision_pos a by simp
  also have "\<dots> = x div 2"
    using bigDivide_nonneg [OF nn2 decPrecision_pos] b by simp
  finally show ?thesis .
qed

lemma quoTruncate_2: "quoTruncate x (ofInt 2) = bigDivide x 2"
proof (cases "0 \<le> x")
  case True
  then show ?thesis by (simp add: quoTruncate_2_nonneg bigDivide_nonneg)
next
  case False
  then have "quoTruncate (- x) (ofInt 2) = (- x) div 2"
    by (intro quoTruncate_2_nonneg) simp
  moreover have "bigDivide (- x) 2 = (- x) div 2"
    using False by (intro bigDivide_nonneg) simp_all
  ultimately show ?thesis
    using quoTruncate_minus [of x "ofInt 2"] bigDivide_minus [of x 2] by simp
qed

lemma bigDivide_2_bounds: "x - 1 \<le> 2 * bigDivide x 2" "2 * bigDivide x 2 \<le> x + 1"
proof -
  have "x - 1 \<le> 2 * bigDivide x 2 \<and> 2 * bigDivide x 2 \<le> x + 1"
  proof (cases "0 \<le> x")
    case True
    then have "bigDivide x 2 = x div 2" by (simp add: bigDivide_nonneg)
    then show ?thesis by presburger
  next
    case False
    then have "bigDivide (- x) 2 = (- x) div 2"
      by (intro bigDivide_nonneg) simp_all
    then have "bigDivide x 2 = - ((- x) div 2)"
      using bigDivide_minus [of x 2] by simp
    then show ?thesis by presburger
  qed
  then show "x - 1 \<le> 2 * bigDivide x 2" "2 * bigDivide x 2 \<le> x + 1" by simp_all
qed

lemma quo_pos:
  assumes "0 \<le> d" "0 < g"
  shows "quo d g = chopRoundAbs decPrecision ((d * decPrecision * decPrecision) div g)"
proof -
  have nn: "0 \<le> d * decPrecision * decPrecision"
    using assms decPrecision_pos by simp
  have "0 \<le> (d * decPrecision * decPrecision) div g"
    using nn assms by (simp add: pos_imp_zdiv_nonneg_iff)
  then show ?thesis
    using assms by (simp add: quo_def bigDivide_nonneg [OF nn] chopPrecisionAndRound_def)
qed

lemma chopRoundAbs_cases:
  "0 < p \<Longrightarrow> chopRoundAbs p y = y div p \<and> 2 * (y mod p) \<le> 2 * (p div 2)
   \<or> chopRoundAbs p y = y div p + 1 \<and> 2 * (p div 2) \<le> 2 * (y mod p)"
  by (auto simp: chopRoundAbs_def Let_def)

lemma chopRoundAbs_bounds:
  assumes "0 < p" "even p"
  shows "2 * (p * chopRoundAbs p y) \<le> 2 * y + p" "2 * y - p \<le> 2 * (p * chopRoundAbs p y)"
proof -
  define Q where "Q = p * (y div p)"
  have y: "y = Q + y mod p" by (simp add: Q_def)
  have m: "0 \<le> y mod p" "y mod p < p" using assms by simp_all
  have h: "2 * (p div 2) = p" using assms by simp
  have c: "p * chopRoundAbs p y = Q \<and> 2 * (y mod p) \<le> p
      \<or> p * chopRoundAbs p y = Q + p \<and> p \<le> 2 * (y mod p)"
    using chopRoundAbs_cases [OF assms(1), of y] h by (auto simp: Q_def algebra_simps)
  show "2 * (p * chopRoundAbs p y) \<le> 2 * y + p" using c y m by linarith
  show "2 * y - p \<le> 2 * (p * chopRoundAbs p y)" using c y m by linarith
qed

lemma chopRoundAbs_ge_div: "y div p \<le> chopRoundAbs p y"
  by (auto simp: chopRoundAbs_def Let_def)

lemma less_div_succ_mult:
  fixes n g :: int
  assumes "0 < g" shows "n < (n div g + 1) * g"
proof -
  have "g * (n div g) + n mod g = n" by (rule mult_div_mod_eq)
  moreover have "n mod g < g" using assms by simp
  moreover have "(n div g + 1) * g = g * (n div g) + g" by (simp add: algebra_simps)
  ultimately show ?thesis by linarith
qed

text \<open>One Newton step from a positive guess lands above the root, less one.\<close>

lemma quo_lower:
  assumes "0 \<le> d" "0 < g"
  shows "d * decPrecision < (quo d g + 1) * g"
proof -
  have "(d * decPrecision * decPrecision) div g div decPrecision = (d * decPrecision) div g"
  proof -
    have "(d * decPrecision * decPrecision) div g div decPrecision
        = (d * decPrecision * decPrecision) div (g * decPrecision)"
      using decPrecision_pos zdiv_zmult2_eq [of decPrecision "d * decPrecision * decPrecision" g]
      by simp
    also have "\<dots> = (d * decPrecision) div g"
      using decPrecision_pos div_mult_mult2 [of decPrecision "d * decPrecision" g] by simp
    finally show ?thesis .
  qed
  then have "(d * decPrecision) div g \<le> quo d g"
    using chopRoundAbs_ge_div [of "(d * decPrecision * decPrecision) div g" decPrecision]
    by (simp add: quo_pos assms)
  then have "((d * decPrecision) div g + 1) * g \<le> (quo d g + 1) * g"
    using assms by (simp add: mult_right_mono)
  moreover have "d * decPrecision < ((d * decPrecision) div g + 1) * g"
    using assms(2) by (rule less_div_succ_mult)
  ultimately show ?thesis by linarith
qed

lemma quo_nonneg:
  assumes "0 \<le> d" "0 < g" shows "0 \<le> quo d g"
proof -
  have "0 \<le> (d * decPrecision * decPrecision) div g"
    using assms decPrecision_pos by (simp add: pos_imp_zdiv_nonneg_iff)
  then have "0 \<le> (d * decPrecision * decPrecision) div g div decPrecision"
    using decPrecision_pos by (simp add: pos_imp_zdiv_nonneg_iff)
  then show ?thesis
    using chopRoundAbs_ge_div [of "(d * decPrecision * decPrecision) div g" decPrecision]
    by (simp add: quo_pos assms)
qed

lemma four_mult_le_square_sum: "4 * (a * b) \<le> (a + b)\<^sup>2" for a b :: int
proof -
  have "0 \<le> (a - b)\<^sup>2" by simp
  also have "(a - b)\<^sup>2 = (a + b)\<^sup>2 - 4 * (a * b)"
    by (simp add: power2_eq_square algebra_simps)
  finally show ?thesis by simp
qed

lemma newton_step_lower:
  assumes "0 \<le> d" "0 < g"
  defines "g' \<equiv> g + bigDivide (quo d g - g) 2"
  shows "d * decPrecision < (g' + 1)\<^sup>2" "0 \<le> g'"
proof -
  let ?q = "quo d g"
  have q: "0 \<le> ?q" using assms by (simp add: quo_nonneg)
  have s: "g + (?q + 1) \<le> 2 * (g' + 1)"
    using bigDivide_2_bounds(1) [of "?q - g"] by (simp add: g'_def)
  have pos: "0 < g + (?q + 1)" using q assms by simp
  have "4 * (d * decPrecision) < 4 * ((?q + 1) * g)"
    using quo_lower [OF assms(1,2)] by simp
  also have "\<dots> \<le> (g + (?q + 1))\<^sup>2"
    using four_mult_le_square_sum [of g "?q + 1"] by (simp add: mult.commute)
  also have "\<dots> \<le> (2 * (g' + 1))\<^sup>2"
    using s pos by (intro power_mono) simp_all
  also have "\<dots> = 4 * (g' + 1)\<^sup>2"
    by (simp add: power2_eq_square algebra_simps)
  finally show "d * decPrecision < (g' + 1)\<^sup>2" by simp
  show "0 \<le> g'" using s pos by simp
qed


lemma approxRootLoop_2:
  "approxRootLoop d 2 m g \<delta> i =
     (if \<bar>\<delta>\<bar> > smallestDec \<and> i < m
      then approxRootLoop d 2 m
             (g + bigDivide (quo d (if g = 0 then smallestDec else g) - g) 2)
             (bigDivide (quo d (if g = 0 then smallestDec else g) - g) 2) (i + 1)
      else g)"
  by (subst approxRootLoop.simps) (simp add: decPow_1 quoTruncate_2 Let_def)

lemma approxRootLoop_lower:
  assumes d: "0 < d"
  shows "0 < g \<Longrightarrow> d * decPrecision < (g + 1)\<^sup>2 \<or> (\<bar>\<delta>\<bar> > smallestDec \<and> i < m)
    \<Longrightarrow> 0 < approxRootLoop d 2 m g \<delta> i
        \<and> d * decPrecision < (approxRootLoop d 2 m g \<delta> i + 1)\<^sup>2"
proof (induction "m - i" arbitrary: g \<delta> i)
  case 0
  then show ?case by (subst (1 2) approxRootLoop_2) auto
next
  case (Suc n)
  show ?case
  proof (cases "\<bar>\<delta>\<bar> > smallestDec \<and> i < m")
    case False
    with Suc.prems show ?thesis by (subst (1 2) approxRootLoop_2) auto
  next
    case True
    define g' where "g' = g + bigDivide (quo d g - g) 2"
    have d0: "0 \<le> d" using d by simp
    have lo: "d * decPrecision < (g' + 1)\<^sup>2" and nn: "0 \<le> g'"
      using newton_step_lower [OF d0 Suc.prems(1)] by (simp_all add: g'_def)
    have "1 \<le> d * decPrecision"
      using d decPrecision_pos by (simp add: int_one_le_iff_zero_less)
    with lo have "g' \<noteq> 0" by auto
    with nn have pos: "0 < g'" by simp
    have n: "n = m - (i + 1)" using Suc.hyps(2) by simp
    have "0 < approxRootLoop d 2 m g' (bigDivide (quo d g - g) 2) (i + 1)
        \<and> d * decPrecision < (approxRootLoop d 2 m g' (bigDivide (quo d g - g) 2) (i + 1) + 1)\<^sup>2"
      using Suc.hyps(1) [OF n pos] lo by simp
    moreover have "approxRootLoop d 2 m g \<delta> i
        = approxRootLoop d 2 m g' (bigDivide (quo d g - g) 2) (i + 1)"
      using True Suc.prems(1) by (subst approxRootLoop_2) (simp add: g'_def)
    ultimately show ?thesis by simp
  qed
qed

lemma approxSqrt_lower:
  assumes "0 \<le> d"
  shows "d * decPrecision < (approxSqrt d + 1)\<^sup>2" "0 \<le> approxSqrt d"
proof -
  have "d * decPrecision < (approxSqrt d + 1)\<^sup>2 \<and> 0 \<le> approxSqrt d"
  proof (cases "d = 0 \<or> d = ofInt 1")
    case True
    then show ?thesis
      using assms decPrecision_pos
      by (auto simp: approxSqrt_def approxRoot_def approxRootPos_def ofInt_def power2_eq_square
          algebra_simps)
  next
    case False
    with assms have d: "0 < d" by simp
    have "0 < approxRootLoop d 2 300 (ofInt 1) (ofInt 1) 0
        \<and> d * decPrecision < (approxRootLoop d 2 300 (ofInt 1) (ofInt 1) 0 + 1)\<^sup>2"
      by (rule approxRootLoop_lower [OF d])
        (simp_all add: ofInt_def decPrecision_def smallestDec_def)
    with False assms show ?thesis
      by (simp add: approxSqrt_def approxRoot_def approxRootPos_def)
  qed
  then show "d * decPrecision < (approxSqrt d + 1)\<^sup>2" "0 \<le> approxSqrt d" by simp_all
qed

lemma approxSqrt_maxSpotPrice: "10 ^ 37 \<le> approxSqrt (10 ^ 38 * decPrecision)"
proof (rule ccontr)
  assume "\<not> 10 ^ 37 \<le> approxSqrt (10 ^ 38 * decPrecision)"
  then have "approxSqrt (10 ^ 38 * decPrecision) + 1 \<le> 10 ^ 37" by simp
  moreover have "0 \<le> approxSqrt (10 ^ 38 * decPrecision) + 1"
    using approxSqrt_lower(2) [of "10 ^ 38 * decPrecision"] decPrecision_pos by simp
  ultimately have "(approxSqrt (10 ^ 38 * decPrecision) + 1)\<^sup>2 \<le> (10 ^ 37)\<^sup>2"
    by (intro power_mono) simp_all
  moreover have "10 ^ 38 * decPrecision * decPrecision < (approxSqrt (10 ^ 38 * decPrecision) + 1)\<^sup>2"
    using approxSqrt_lower(1) [of "10 ^ 38 * decPrecision"] decPrecision_pos by simp
  ultimately show False by (simp add: decPrecision_def)
qed

subsection \<open>Range errors of tickToSqrtPrice\<close>

lemma tickToSqrtPrice_zero: "tickToSqrtPrice K 0 e = Inr (ofInt 1)"
  by (simp add: tickToSqrtPrice_def)

lemma getTenExponentN_small: "- 18 \<le> n \<Longrightarrow> getTenExponentN n = Inr (decPow (ofInt 10) n)"
  by (simp add: getTenExponentN_def)

text \<open>
  C7 (amended). For a tick index other than zero: an exponent outside the global range
  makes \<^verbatim>\<open>tickToSqrtPrice\<close> fail with the exponent's range error, and for an exponent
  in the range a tick index outside \<open>[minTick, maxTick]\<close> makes it fail with the tick's
  range error. (An exponent above 18 would be refused earlier by the decimal package;
  the exported maximum is negative.)
\<close>

theorem tickToSqrtPrice_range_errors:
  assumes "tickIndex \<noteq> 0"
  shows "(e > exponentAtPriceOneMax K \<or> e < exponentAtPriceOneMin K
            \<longrightarrow> tickToSqrtPrice K tickIndex e = Inl ExponentOutOfRange)
       \<and> (\<not> (e > exponentAtPriceOneMax K \<or> e < exponentAtPriceOneMin K) \<and> e \<le> 18
          \<and> (tickIndex < fst (computeMinMaxTicksFromExponentAtPriceOne e)
               \<or> tickIndex > snd (computeMinMaxTicksFromExponentAtPriceOne e))
            \<longrightarrow> tickToSqrtPrice K tickIndex e = Inl TickIndexOutOfRange)"
  using assms
  by (auto simp: tickToSqrtPrice_def tickToPrice_def getTenExponentN_small Let_def
      split: prod.splits)

lemma minMaxTicks_4: "computeMinMaxTicksFromExponentAtPriceOne (- 4) = (- 1620000, 3420000)"
  by code_simp

theorem tickToSqrtPrice_range_errors_witness:
  "tickToSqrtPrice referenceBounds 1 0 = Inl ExponentOutOfRange
   \<and> tickToSqrtPrice referenceBounds 3420001 (- 4) = Inl TickIndexOutOfRange
   \<and> tickToSqrtPrice referenceBounds (- 1620001) (- 4) = Inl TickIndexOutOfRange"
proof -
  have nz: "(1::int) \<noteq> 0" "(3420001::int) \<noteq> 0" "(- 1620001::int) \<noteq> 0"
    by simp_all
  from tickToSqrtPrice_range_errors [OF nz(1), where e = 0 and K = referenceBounds]
  have "tickToSqrtPrice referenceBounds 1 0 = Inl ExponentOutOfRange"
    by (simp add: referenceBounds_def)
  moreover from tickToSqrtPrice_range_errors [OF nz(2), where e = "- 4" and K = referenceBounds]
  have "tickToSqrtPrice referenceBounds 3420001 (- 4) = Inl TickIndexOutOfRange"
    by (simp add: referenceBounds_def minMaxTicks_4)
  moreover from tickToSqrtPrice_range_errors [OF nz(3), where e = "- 4" and K = referenceBounds]
  have "tickToSqrtPrice referenceBounds (- 1620001) (- 4) = Inl TickIndexOutOfRange"
    by (simp add: referenceBounds_def minMaxTicks_4)
  ultimately show ?thesis by simp
qed

text \<open>
  C7 as stated fails at tick index zero: the function returns 1 before it checks
  anything, here for the exponent 0, which lies above the maximum of -1.
\<close>

theorem tickToSqrtPrice_zero_counterexample:
  "tickToSqrtPrice referenceBounds 0 0 = Inr (ofInt 1)
   \<and> 0 > exponentAtPriceOneMax referenceBounds"
  by (simp add: tickToSqrtPrice_def referenceBounds_def)

subsection \<open>The swap loop\<close>

lemma swapLoop_stops:
  "\<not> swapContinues lim st \<Longrightarrow> swapLoop K I S e lim ticks st i = Inr st"
  by (subst swapLoop.simps) simp

lemma swapLoop_overflow:
  "swapContinues lim st \<Longrightarrow> tickAt ticks i = None
     \<Longrightarrow> swapLoop K I S e lim ticks st i = Inl TickOverflowError"
  by (subst swapLoop.simps) simp

lemma swapLoop_step:
  "swapContinues lim st \<Longrightarrow> tickAt ticks i = Some t
     \<Longrightarrow> swapIteration K I S e st t = Inr st'
     \<Longrightarrow> swapLoop K I S e lim ticks st i = swapLoop K I S e lim ticks st' (i + 1)"
  by (subst swapLoop.simps) simp

subsection \<open>The reference fixtures\<close>


lemma sqrt_315000: "tickToSqrtPrice referenceBounds 315000 (- 4) = Inr 74161984870956629487"
  by code_simp


lemma step_5300000000:
  "computeSwapStepOutGivenIn (oneForZero lim 0) 70710678118654752440 74161984870956629487
     1517882343751510418088349649 (ofInt 5300000000)
   = Inr \<lparr>sqrtPriceNext = 74161984870956629487,
          amountInConsumed = 5238677583000000000000000000,
          amountOutComputed = 998976618347426388356620,
          feeChargeTotal = 0\<rparr>"
  unfolding oneForZero_def swapStrategy.simps
  by code_simp



lemma sqrtPriceLimit_reference:
  "10 ^ 37 \<le> approxSqrt (maxSpotPrice referenceBounds)"
  using approxSqrt_maxSpotPrice by (simp add: referenceBounds_def)

lemma oneForZero_target:
  "nextTickSqrtPrice \<le> lim \<Longrightarrow> getSqrtTargetPrice (oneForZero lim fee) nextTickSqrtPrice = nextTickSqrtPrice"
  by (simp add: oneForZero_def)

lemma ofInt_0: "ofInt 0 = 0"
  by (simp add: ofInt_def)

lemma referenceImports_oneForZero: "oneForZeroStrategy referenceImports = oneForZero"
  by (simp add: referenceImports_def)

lemma oneForZero_initTickValue: "initTickValue (oneForZero lim fee) t = t"
  by (simp add: oneForZero_def)



lemma swapLoop_returns:
  "swapLoop K I S e lim ticks st i = Inr st' \<Longrightarrow> \<not> swapContinues lim st'"
proof (induction K I S e lim ticks st i rule: swapLoop.induct)
  case (1 K I S e lim ticks st i)
  show ?case
  proof (cases "swapContinues lim st")
    case False
    with "1.prems" show ?thesis by (simp add: swapLoop_stops)
  next
    case True
    with "1.prems" obtain t st1 where t: "tickAt ticks i = Some t"
      and it: "swapIteration K I S e st t = Inr st1"
      and rest: "swapLoop K I S e lim ticks st1 (i + 1) = Inr st'"
      by (subst (asm) swapLoop.simps) (auto split: option.splits sum.splits)
    from "1.IH" [OF True t it rest] show ?thesis .
  qed
qed

lemma iteration_5300000000:
  assumes "10 ^ 37 \<le> lim"
  shows "swapIteration referenceBounds referenceImports (oneForZero lim 0) (- 4)
     \<lparr>amountRemaining = ofInt 5300000000, amountCalculated = 0,
      sqrtPrice = 70710678118654752440, tick = 310000,
      liquidity = 1517882343751510418088349649, feeGrowthGlobal = 0\<rparr> 315000
   = Inr \<lparr>amountRemaining = 61322417000000000000000000,
          amountCalculated = 998976618347426388356620,
          sqrtPrice = 74161984870956629487, tick = 310000,
          liquidity = 1518197343751510418088349649, feeGrowthGlobal = 0\<rparr>"
proof -
  have t: "getSqrtTargetPrice (oneForZero lim 0) 74161984870956629487 = 74161984870956629487"
    using assms by (intro oneForZero_target) simp
  have s: "setLiquidityDeltaSign (oneForZero lim 0) x = x" for x
    by (simp add: oneForZero_def)
  show ?thesis
    by (simp add: swapIteration_def sqrt_315000 t s step_5300000000 Let_def addLiquidity_def)
      (simp add: ofInt_def decPrecision_def)
qed

text \<open>
  C2. When the loop condition still holds and the index has left the tick sequence, the
  loop fails with \<^verbatim>\<open>TickOverflowError\<close>; the loop returns a state only when its
  condition has become false; and the fixture with 5300000000 of the quote asset
  against the single initialized tick 315000 fails with \<^verbatim>\<open>TickOverflowError\<close>.
\<close>

theorem swapLoop_tick_overflow:
  "(swapContinues lim st \<and> (i < 0 \<or> int (length tickDepths) \<le> i)
      \<longrightarrow> swapLoop K I S e lim tickDepths st i = Inl TickOverflowError)
   \<and> (swapLoop K I S e lim tickDepths st i = Inr st' \<longrightarrow> \<not> swapContinues lim st')
   \<and> calcOutGivenIn referenceBounds referenceImports \<lparr>denom = ''usdc'', amount = 5300000000\<rparr>
        ''eth'' 1517882343751510418088349649 [315000] 0 310000 70710678118654752440 (- 4) 0 0
      = Inl TickOverflowError"
proof (intro conjI impI)
  assume "swapContinues lim st \<and> (i < 0 \<or> int (length tickDepths) \<le> i)"
  then show "swapLoop K I S e lim tickDepths st i = Inl TickOverflowError"
    by (intro swapLoop_overflow) (auto simp: tickAt_def)
next
  assume "swapLoop K I S e lim tickDepths st i = Inr st'"
  then show "\<not> swapContinues lim st'" by (rule swapLoop_returns)
next
  define lim where "lim = approxSqrt (maxSpotPrice referenceBounds)"
  have lim: "10 ^ 37 \<le> lim"
    unfolding lim_def by (rule sqrtPriceLimit_reference)
  define st0 where "st0 = \<lparr>amountRemaining = ofInt 5300000000, amountCalculated = 0,
      sqrtPrice = 70710678118654752440, tick = 310000,
      liquidity = 1517882343751510418088349649, feeGrowthGlobal = 0\<rparr>"
  define st1 where "st1 = \<lparr>amountRemaining = 61322417000000000000000000,
          amountCalculated = 998976618347426388356620,
          sqrtPrice = 74161984870956629487, tick = 310000,
          liquidity = 1518197343751510418088349649, feeGrowthGlobal = 0\<rparr>"
  have c0: "swapContinues lim st0"
    using lim by (simp add: swapContinues_def st0_def smallestDec_def ofInt_def decPrecision_def)
  have c1: "swapContinues lim st1"
    using lim by (simp add: swapContinues_def st1_def smallestDec_def)
  have "swapLoop referenceBounds referenceImports (oneForZero lim 0) (- 4) lim [315000] st0 0
      = swapLoop referenceBounds referenceImports (oneForZero lim 0) (- 4) lim [315000] st1 (0 + 1)"
    using c0 iteration_5300000000 [OF lim]
    by (intro swapLoop_step [where t = 315000]) (simp_all add: tickAt_def st0_def st1_def)
  also have "\<dots> = Inl TickOverflowError"
    using c1 by (intro swapLoop_overflow) (simp_all add: tickAt_def)
  finally have loop: "swapLoop referenceBounds referenceImports (oneForZero lim 0) (- 4) lim
      [315000] st0 0 = Inl TickOverflowError" .
  have "swapOutGivenIn referenceBounds referenceImports \<lparr>denom = ''usdc'', amount = 5300000000\<rparr>
         ''eth'' 1517882343751510418088349649 [315000] 0 310000 70710678118654752440
         (- 4) 0 0 = Inl TickOverflowError"
    using loop
    by (simp add: swapOutGivenIn_def makeSwapStrategy_def referenceImports_oneForZero Let_def
        lim_def [symmetric] st0_def ofInt_0 oneForZero_initTickValue)
  then show "calcOutGivenIn referenceBounds referenceImports \<lparr>denom = ''usdc'', amount = 5300000000\<rparr>
        ''eth'' 1517882343751510418088349649 [315000] 0 310000 70710678118654752440 (- 4) 0 0
      = Inl TickOverflowError"
    by (simp add: calcOutGivenIn_def)
qed

theorem swapLoop_tick_overflow_witness:
  "swapLoop referenceBounds referenceImports (oneForZero 10 0) (- 4) 10 []
     \<lparr>amountRemaining = ofInt 5, amountCalculated = 0, sqrtPrice = ofInt 1, tick = 0,
      liquidity = ofInt 1, feeGrowthGlobal = 0\<rparr> 0 = Inl TickOverflowError
   \<and> swapLoop referenceBounds referenceImports (oneForZero 10 0) (- 4) 10 [7, 8]
     \<lparr>amountRemaining = ofInt 5, amountCalculated = 0, sqrtPrice = ofInt 1, tick = 0,
      liquidity = ofInt 1, feeGrowthGlobal = 0\<rparr> (- 1) = Inl TickOverflowError
   \<and> \<not> swapContinues 10 \<lparr>amountRemaining = 0, amountCalculated = 0, sqrtPrice = ofInt 1,
        tick = 0, liquidity = ofInt 1, feeGrowthGlobal = 0\<rparr>"
proof -
  let ?run = "\<lparr>amountRemaining = ofInt 5, amountCalculated = 0, sqrtPrice = ofInt 1, tick = 0,
      liquidity = ofInt 1, feeGrowthGlobal = 0\<rparr>"
  let ?done = "\<lparr>amountRemaining = 0, amountCalculated = 0, sqrtPrice = ofInt 1, tick = 0,
      liquidity = ofInt 1, feeGrowthGlobal = 0\<rparr>"
  have c: "swapContinues 10 ?run"
    by (simp add: swapContinues_def smallestDec_def ofInt_def decPrecision_def)
  have r: "swapLoop referenceBounds referenceImports (oneForZero 10 0) (- 4) 10 [] ?done 0 = Inr ?done"
    by (rule swapLoop_stops) (simp add: swapContinues_def smallestDec_def)
  from swapLoop_tick_overflow [where lim = 10 and st = ?run and i = 0 and tickDepths = "[]"
      and K = referenceBounds and I = referenceImports and S = "oneForZero 10 0" and e = "- 4"] c
  have "swapLoop referenceBounds referenceImports (oneForZero 10 0) (- 4) 10 [] ?run 0
      = Inl TickOverflowError" by simp
  moreover
  from swapLoop_tick_overflow [where lim = 10 and st = ?run and i = "- 1" and tickDepths = "[7, 8]"
      and K = referenceBounds and I = referenceImports and S = "oneForZero 10 0" and e = "- 4"] c
  have "swapLoop referenceBounds referenceImports (oneForZero 10 0) (- 4) 10 [7, 8] ?run (- 1)
      = Inl TickOverflowError" by simp
  moreover
  from swapLoop_tick_overflow [where lim = 10 and st = ?done and i = 0 and tickDepths = "[]"
      and K = referenceBounds and I = referenceImports and S = "oneForZero 10 0" and e = "- 4"
      and st' = ?done] r
  have "\<not> swapContinues 10 ?done" by simp
  ultimately show ?thesis by simp
qed

lemma decTruncate_zero: "decTruncate (ofInt 0) = 0"
  by (simp add: decTruncate_def chopPrecisionAndTruncate_def bigDivide_def ofInt_def)

text \<open>
  C9. A token-in whose amount, as a decimal, is at most the smallest decimal makes
  \<^verbatim>\<open>calcOutGivenIn\<close> return 0, whatever the tick sequence (the empty one included),
  the start index and the other arguments are: the loop body is not entered, so no tick
  is read and no tick overflow is raised.
\<close>

theorem calcOutGivenIn_dust:
  assumes "ofInt (amount tokenIn) \<le> smallestDec"
  shows "calcOutGivenIn K I tokenIn tokenDenom0 poolLiquidity tickDepths curTickIndex curTick
           curSqrtPrice precisionFactorAtPriceOne swapFee priceLimit = Inr 0"
  using assms
  by (simp add: calcOutGivenIn_def swapOutGivenIn_def Let_def swapLoop_stops swapContinues_def
      decTruncate_zero)

theorem calcOutGivenIn_dust_witness:
  "calcOutGivenIn referenceBounds referenceImports \<lparr>denom = ''usdc'', amount = 0\<rparr> ''eth''
     1517882343751510418088349649 [] 0 310000 70710678118654752440 (- 4) 0 0 = Inr 0"
proof -
  have "ofInt (amount \<lparr>denom = ''usdc'', amount = 0\<rparr>) \<le> smallestDec"
    by (simp add: ofInt_def smallestDec_def)
  from calcOutGivenIn_dust [OF this] show ?thesis .
qed

text \<open>
  C4 (amended). For a swap fee in \<open>[0,1)\<close>: a zero fee charges nothing, whether or not
  the target was reached; for a positive fee the charge is
  \<open>amountIn * swapFee / (1 - swapFee)\<close> when the target was reached and the remaining
  amount less the amount consumed otherwise; a negative charge is an error and is never
  returned.
\<close>

theorem getFeeCharge_cases:
  assumes "0 \<le> swapFee" and "swapFee < ofInt 1"
  shows "(swapFee = 0 \<longrightarrow>
            getFeeChargePerSwapStepOutGivenIn reached amountIn remaining swapFee = Inr 0)
       \<and> (swapFee \<noteq> 0 \<and> 0 \<le> quo (mul amountIn swapFee) (ofInt 1 - swapFee) \<longrightarrow>
            getFeeChargePerSwapStepOutGivenIn True amountIn remaining swapFee
              = Inr (quo (mul amountIn swapFee) (ofInt 1 - swapFee)))
       \<and> (swapFee \<noteq> 0 \<and> 0 \<le> remaining - amountIn \<longrightarrow>
            getFeeChargePerSwapStepOutGivenIn False amountIn remaining swapFee
              = Inr (remaining - amountIn))
       \<and> (swapFee \<noteq> 0 \<and> quo (mul amountIn swapFee) (ofInt 1 - swapFee) < 0 \<longrightarrow>
            getFeeChargePerSwapStepOutGivenIn True amountIn remaining swapFee
              = Inl FeeChargeNegative)
       \<and> (swapFee \<noteq> 0 \<and> remaining - amountIn < 0 \<longrightarrow>
            getFeeChargePerSwapStepOutGivenIn False amountIn remaining swapFee
              = Inl FeeChargeNegative)
       \<and> (\<forall>fee. getFeeChargePerSwapStepOutGivenIn reached amountIn remaining swapFee = Inr fee
            \<longrightarrow> 0 \<le> fee)"
  using assms
  by (auto simp: getFeeChargePerSwapStepOutGivenIn_def Let_def split: if_splits)

theorem getFeeCharge_cases_witness:
  "getFeeChargePerSwapStepOutGivenIn True (ofInt 100) (ofInt 200) (10 ^ 16)
     = Inr 1010101010101010101
   \<and> getFeeChargePerSwapStepOutGivenIn False (ofInt 100) (ofInt 200) (10 ^ 16)
     = Inr (ofInt 100)
   \<and> getFeeChargePerSwapStepOutGivenIn False (ofInt 200) (ofInt 100) (10 ^ 16)
     = Inl FeeChargeNegative"
proof -
  have fee: "(0::int) \<le> 10 ^ 16" "(10::int) ^ 16 < ofInt 1"
    by (simp_all add: ofInt_def decPrecision_def)
  have q: "quo (mul (ofInt 100) (10 ^ 16)) (ofInt 1 - 10 ^ 16) = 1010101010101010101"
    by (simp add: quo_def mul_def ofInt_def decPrecision_def chopPrecisionAndRound_def
        chopRoundAbs_def bigDivide_def Let_def)
  from getFeeCharge_cases [OF fee, of True "ofInt 100" "ofInt 200"] q
  have "getFeeChargePerSwapStepOutGivenIn True (ofInt 100) (ofInt 200) (10 ^ 16)
          = Inr 1010101010101010101"
    by simp
  moreover from getFeeCharge_cases [OF fee, of False "ofInt 100" "ofInt 200"]
  have "getFeeChargePerSwapStepOutGivenIn False (ofInt 100) (ofInt 200) (10 ^ 16)
          = Inr (ofInt 100)"
    by (simp add: ofInt_def decPrecision_def)
  moreover from getFeeCharge_cases [OF fee, of False "ofInt 200" "ofInt 100"]
  have "getFeeChargePerSwapStepOutGivenIn False (ofInt 200) (ofInt 100) (10 ^ 16)
          = Inl FeeChargeNegative"
    by (simp add: ofInt_def decPrecision_def)
  ultimately show ?thesis by simp
qed

text \<open>
  C4 as stated fails at a zero fee: with the target not reached, 7 remaining and 5
  consumed, the charge is 0 and not 2.
\<close>

theorem getFeeCharge_zero_fee_counterexample:
  "getFeeChargePerSwapStepOutGivenIn False (ofInt 5) (ofInt 7) 0 = Inr 0
   \<and> ofInt 7 - ofInt 5 \<noteq> (0::int)
   \<and> (0::int) < ofInt 1"
  by (simp add: getFeeChargePerSwapStepOutGivenIn_def ofInt_def decPrecision_def)

subsection \<open>Split completeness\<close>















text \<open>
  The earlier revision of \<^verbatim>\<open>findBestSplitTokenIn\<close> behaves differently on the same two
  inputs: where the second route has no liquidity it returns the empty split, and where
  both routes quote one for one it returns the objects as the search left them, 100 and
  50 of a requested 100.
\<close>

lemma split8_dry:
  "findBestSplitTokenIn8 (\<lambda>r a. Inr (if r = 0 then a else 0)) 2 100 2 = Inr []"
  by code_simp

lemma split8_even:
  "findBestSplitTokenIn8 (\<lambda>r a. Inr a) 2 100 2 = Inr [(0, 100), (1, 50)]"
  by code_simp

subsection \<open>Candidate routes\<close>

text \<open>
  C10. On the pools 1 (A, B), 2 (B, A) and 3 (A, D), with at most 4 hops and 4 routes,
  \<^verbatim>\<open>getCandidateRoutes\<close> from A to D produces three routes. The first two go through three
  pools, coming back to A after two hops, and carry two token-out denominations only:
  the hop that arrives at the token-in denomination pushes nothing on
  \<^verbatim>\<open>currentTokenOuts\<close>, and the \<^verbatim>\<open>pop()\<close> after it removes the entry of the hop before.
\<close>

theorem getCandidateRoutes_cycle:
  "map (\<lambda>r. (map poolId (pools r), tokenOutDenoms r)) (fst (getCandidateRoutes cycleRouter ''A'' ''D''))
     = [([''1'', ''2'', ''3''], [''B'', ''D'']),
        ([''2'', ''1'', ''3''], [''B'', ''D'']),
        ([''3''], [''D''])]"
  by code_simp

subsection \<open>The order of the routes\<close>

text \<open>
  C8. For two routes of the same weight the comparison function of
  \<^verbatim>\<open>getOptimizedRoutesByTokenIn\<close> answers -1 whichever of them comes first, and -1 for a
  route against itself: it never answers 0. It asks for each of the two routes before
  the other, so their order after \<^verbatim>\<open>routes.sort\<close> is the choice of the sorting algorithm
  and not the order of discovery.
\<close>

theorem compareRoutes_tie:
  "compareRoutes [directRoute, otherRoute] [ofInt 7, ofInt 7] directRoute otherRoute = Some (- 1)
   \<and> compareRoutes [directRoute, otherRoute] [ofInt 7, ofInt 7] otherRoute directRoute = Some (- 1)
   \<and> compareRoutes [directRoute, otherRoute] [ofInt 7, ofInt 7] directRoute directRoute = Some (- 1)"
  by (simp add: compareRoutes_def indexOf_def weightAt_def directRoute_def otherRoute_def)

subsection \<open>Ticks below the precision of a decimal\<close>

text \<open>
  C6. With the exponent -4 the tick -1260000 is a valid tick index: it lies between the
  minimum -1620000 and the maximum 3420000, and its price is \<open>10\<^sup>-\<^sup>1\<^sup>4\<close>. There
  \<^verbatim>\<open>tickToSqrtPrice\<close> fails with the package's error for too little precision, since the
  additive increment of the tick has the exponent -19; at the next tick, -1259999, it
  returns. So there is no sqrt-price at -1260000 to be less than the one at -1259999.
\<close>

theorem tickToSqrtPrice_valid_tick_fails:
  "computeMinMaxTicksFromExponentAtPriceOne (- 4) = (- 1620000, 3420000)
   \<and> tickToSqrtPrice referenceBounds (- 1260000) (- 4) = Inl TooLittlePrecision
   \<and> tickToSqrtPrice referenceBounds (- 1259999) (- 4) = Inr 100004999875"
proof -
  have "tickToSqrtPrice referenceBounds (- 1260000) (- 4) = Inl TooLittlePrecision"
    by code_simp
  moreover have "tickToSqrtPrice referenceBounds (- 1259999) (- 4) = Inr 100004999875"
    by code_simp
  ultimately show ?thesis by (simp add: minMaxTicks_4)
qed

end
